theory Spec2Isabelle
  imports Main
begin

section \<open>Settled promises and the API client\<close>

text \<open>
  An awaited promise has settled: it was either rejected with an exception (\<open>Inl\<close>) or
  fulfilled with a value (\<open>Inr\<close>). A value that may be \<open>null\<close> or \<open>undefined\<close> is an
  \<open>option\<close>. The browser's \<open>fetch\<close> is the environment: its outcome is an input of the model.
\<close>

datatype exn = NetworkError | AbortError | SyntaxError | TypeError | QuotaExceededError

type_synonym 'a promise = "exn + 'a"

text \<open>
  A response carries \<open>res.ok\<close>, \<open>res.status\<close> and what \<open>res.json()\<close> settles to: a rejection when
  the body is not JSON, otherwise the parsed payload (\<open>None\<close> is the JSON value \<open>null\<close>).
\<close>

record 'a response =
  res_ok :: bool
  res_status :: nat
  res_json :: "'a option promise"

text \<open>
  \<open>fetch\<close> rejects on a network error and, through the abort timer, on a timeout; otherwise it
  resolves to a response, whatever the status code.
\<close>

datatype 'a fetch_outcome = Rejects exn | Resolves "'a response"

text \<open>The body of the \<open>try\<close> block of \<open>apiFetch\<close>; the logging calls are not modelled.\<close>

definition apiFetch_try :: "'a fetch_outcome \<Rightarrow> 'a option promise" where
  "apiFetch_try out =
     (case out of
        Rejects e \<Rightarrow> Inl e
      | Resolves res \<Rightarrow> if \<not> res_ok res then Inr None else res_json res)"

text \<open>\<open>apiFetch\<close>: the \<open>catch\<close> clause turns every exception of the \<open>try\<close> block into \<open>null\<close>.\<close>

definition apiFetch :: "'a fetch_outcome \<Rightarrow> 'a option promise" where
  "apiFetch out = (case apiFetch_try out of Inl err \<Rightarrow> Inr None | Inr v \<Rightarrow> Inr v)"

record CandidateStatus =
  cs_status :: string
  hasOnboarded :: bool
  hasMentor :: bool
  hasRoadmap :: bool
  candidateId :: "string option"

definition getCandidateStatus :: "CandidateStatus fetch_outcome \<Rightarrow> CandidateStatus option promise" where
  "getCandidateStatus out = apiFetch out"


section \<open>Identity and effects\<close>

record User =
  u_id :: string
  u_email :: string
  u_name :: string
  u_role :: string
  u_verified :: bool

text \<open>
  What a handler does to the outside world, in the order it does it: router navigation,
  notifications, and opening a new browsing context.
\<close>

datatype effect =
    Push string
  | Replace string
  | ToastInfo string
  | ToastError string
  | ToastSuccess string
  | WindowOpen string string

text \<open>A string that may be absent, used as a condition: \<open>undefined\<close> and \<open>""\<close> are falsy.\<close>

definition truthy :: "string option \<Rightarrow> bool" where
  "truthy v = (case v of None \<Rightarrow> False | Some s \<Rightarrow> s \<noteq> [])"


section \<open>Progression resolver: the three call sites\<close>

text \<open>Optional chaining \<open>status?.flag\<close> used as a condition: \<open>undefined\<close> is falsy.\<close>

definition chain :: "('a \<Rightarrow> bool) \<Rightarrow> 'a option \<Rightarrow> bool" where
  "chain flag status = (case status of None \<Rightarrow> False | Some s \<Rightarrow> flag s)"

text \<open>\<open>smartRedirect\<close> of the login page (post-login redirect).\<close>

definition smartRedirect :: "string \<Rightarrow> bool \<Rightarrow> CandidateStatus fetch_outcome \<Rightarrow> effect list" where
  "smartRedirect role verified out =
     (if role = ''mentor'' then
        [Push (if verified then ''/mentor/dashboard'' else ''/mentor/verification'')]
      else
        (case getCandidateStatus out of
           Inr status \<Rightarrow>
             if chain hasMentor status then [Push ''/candidate/workflow'']
             else if chain hasRoadmap status then [Push ''/candidate/mentors'']
             else if chain hasOnboarded status then [Push ''/candidate/roadmap'']
             else [Push ''/candidate/onboarding'']
         | Inl err \<Rightarrow> [Push ''/candidate/onboarding'']))"

text \<open>\<open>handleGetStarted\<close> of the landing page.\<close>

definition handleGetStarted :: "User option \<Rightarrow> CandidateStatus fetch_outcome \<Rightarrow> effect list" where
  "handleGetStarted user out =
     (case user of
        None \<Rightarrow> [Push ''/signup'']
      | Some u \<Rightarrow>
          if u_role u \<noteq> ''candidate'' then
            [ToastInfo ''Sign up as a candidate to generate your roadmap'', Push ''/signup'']
          else
            (case getCandidateStatus out of
               Inr status \<Rightarrow>
                 if chain hasMentor status then [Push ''/candidate/workflow'']
                 else if chain hasRoadmap status then [Push ''/candidate/mentors'']
                 else if chain hasOnboarded status then [Push ''/candidate/roadmap'']
                 else [Push ''/candidate/onboarding'']
             | Inl err \<Rightarrow> [Push ''/candidate/onboarding'']))"

text \<open>\<open>handleDashboard\<close> of the landing page (dashboard shortcut).\<close>

definition handleDashboard :: "User option \<Rightarrow> CandidateStatus fetch_outcome \<Rightarrow> effect list" where
  "handleDashboard user out =
     (case user of
        None \<Rightarrow> [Push ''/login'']
      | Some u \<Rightarrow>
          if u_role u = ''mentor'' then
            [Push (if u_verified u then ''/mentor/dashboard'' else ''/mentor/verification'')]
          else
            (case getCandidateStatus out of
               Inr status \<Rightarrow>
                 if chain hasMentor status then [Push ''/candidate/workflow'']
                 else if chain hasRoadmap status then [Push ''/candidate/mentors'']
                 else if chain hasOnboarded status then [Push ''/candidate/roadmap'']
                 else [Push ''/candidate/onboarding'']
             | Inl err \<Rightarrow> [Push ''/candidate/onboarding'']))"

text \<open>
  The specification's resolver, written from its words: the flags are tried in the order
  \<open>hasMentor\<close>, \<open>hasRoadmap\<close>, \<open>hasOnboarded\<close> and the first one that holds decides.
\<close>

datatype destination = Workflow | MentorDiscovery | Roadmap | Onboarding

definition resolve_spec :: "bool \<Rightarrow> bool \<Rightarrow> bool \<Rightarrow> destination" where
  "resolve_spec mentor roadmap onboarded =
     (if mentor then Workflow
      else if roadmap then MentorDiscovery
      else if onboarded then Roadmap
      else Onboarding)"

fun route_of :: "destination \<Rightarrow> string" where
  "route_of Workflow = ''/candidate/workflow''"
| "route_of MentorDiscovery = ''/candidate/mentors''"
| "route_of Roadmap = ''/candidate/roadmap''"
| "route_of Onboarding = ''/candidate/onboarding''"

text \<open>The fetch failed: it was rejected (network error, timeout), or the response is not 2xx.\<close>

definition fetch_failed :: "'a fetch_outcome \<Rightarrow> bool" where
  "fetch_failed out = (case out of Rejects e \<Rightarrow> True | Resolves res \<Rightarrow> res_ok res = False)"


section \<open>Candidate workflow dashboard\<close>

text \<open>
  The dashboard's \<open>useState\<close> cells form one record. A functional update
  \<open>setX((prev) => f(prev))\<close> is the state transformer \<open>f\<close> on that cell.
\<close>

text \<open>
  A JavaScript number is a double. The counters hold integers, and the sum of two of them is
  the exact sum rounded to the nearest double, a tie going to the even significand: every
  integer up to \<open>2 ^ 53\<close> in magnitude is a double, and beyond that the doubles are the
  multiples of the unit in the last place of a 53-bit significand. Fractions, and sums from
  \<open>2 ^ 1024\<close> on, which overflow to \<open>Infinity\<close>, are outside this model.
\<close>

fun bit_length :: "nat \<Rightarrow> nat" where
  "bit_length n = (if n = 0 then 0 else Suc (bit_length (n div 2)))"

declare bit_length.simps [simp del]

definition round_to_double :: "int \<Rightarrow> int" where
  "round_to_double n =
     (if abs n \<le> 2 ^ 53 then n
      else
        (let ulp = 2 ^ (bit_length (nat (abs n)) - 53);
             q = abs n div ulp;
             r = abs n mod ulp;
             q' = (if ulp < 2 * r \<or> (2 * r = ulp \<and> odd q) then q + 1 else q)
         in sgn n * (q' * ulp)))"

definition js_add :: "int \<Rightarrow> int \<Rightarrow> int" where
  "js_add a b = round_to_double (a + b)"

definition js_sub :: "int \<Rightarrow> int \<Rightarrow> int" where
  "js_sub a b = round_to_double (a - b)"

record Session =
  s_id :: string
  s_title :: string
  s_date :: string
  s_time :: string
  s_status :: string
  s_mentor :: string
  s_notes :: "string option"
  s_relative :: "string option"

record ActionItem =
  a_id :: string
  a_title :: string
  a_completed :: bool
  a_dueDate :: string

record RoadmapStep =
  r_id :: string
  r_title :: string
  r_description :: string
  r_duration :: string
  r_status :: string

record NextSession =
  n_id :: string
  n_date :: string
  n_time :: string
  n_title :: string
  n_relative :: string

record Stats =
  completedSessions :: int
  totalSessions :: int
  completedActions :: int
  totalActions :: int
  completedSteps :: int
  totalSteps :: int

record WorkflowResponse =
  w_candidateId :: string
  w_mentorName :: string
  w_status :: string
  w_sessions :: "Session list"
  w_actionItems :: "ActionItem list"
  w_roadmap :: "RoadmapStep list"
  w_nextSession :: "NextSession option"
  w_overallProgress :: "int option"
  w_stats :: "Stats option"

record CompleteSessionResponse =
  csr_message :: string
  csr_completedSessions :: int
  csr_totalSessions :: int

record ToggleActionResponse =
  tar_message :: string
  tar_actionItemId :: string
  tar_completed :: bool
  tar_completedCount :: int
  tar_totalCount :: int

record Workflow =
  sessions :: "Session list"
  actionItems :: "ActionItem list"
  sampleRoadmap :: "RoadmapStep list"
  mentorName :: string
  nextSession :: "NextSession option"
  overallProgress :: int
  stats :: Stats
  isLoaded :: bool

definition getWorkflow :: "WorkflowResponse fetch_outcome \<Rightarrow> WorkflowResponse option promise" where
  "getWorkflow out = apiFetch out"

definition completeSession ::
  "CompleteSessionResponse fetch_outcome \<Rightarrow> CompleteSessionResponse option promise" where
  "completeSession out = apiFetch out"

definition toggleActionItem ::
  "ToggleActionResponse fetch_outcome \<Rightarrow> ToggleActionResponse option promise" where
  "toggleActionItem out = apiFetch out"

text \<open>\<open>user?.id\<close> as a condition: false without a user and for the empty string.\<close>

definition has_id :: "User option \<Rightarrow> bool" where
  "has_id user = (case user of None \<Rightarrow> False | Some u \<Rightarrow> u_id u \<noteq> [])"

text \<open>\<open>loadData\<close>: a rejected request would reject \<open>loadData\<close>, which has no \<open>try\<close>.\<close>

definition loadData ::
  "User option \<Rightarrow> WorkflowResponse fetch_outcome \<Rightarrow> Workflow \<Rightarrow> Workflow promise" where
  "loadData user out st =
     (if \<not> has_id user then Inr st
      else
        (case getWorkflow out of
           Inl err \<Rightarrow> Inl err
         | Inr None \<Rightarrow> Inr (st\<lparr>isLoaded := True\<rparr>)
         | Inr (Some res) \<Rightarrow>
             Inr (st\<lparr>sessions := w_sessions res,
                     actionItems := w_actionItems res,
                     sampleRoadmap := w_roadmap res,
                     mentorName := (if w_mentorName res \<noteq> [] then w_mentorName res else mentorName st),
                     nextSession := w_nextSession res,
                     overallProgress := (case w_overallProgress res of None \<Rightarrow> 0 | Some p \<Rightarrow> p),
                     stats := (case w_stats res of None \<Rightarrow> stats st | Some s \<Rightarrow> s),
                     isLoaded := True\<rparr>)))"

text \<open>
  \<open>handleToggleAction\<close>, in the two parts that the \<open>await\<close> separates: the optimistic update
  that runs synchronously, and what runs once \<open>toggleActionItem\<close> has delivered \<open>res\<close>.
\<close>

definition handleToggleAction_apply :: "string \<Rightarrow> bool \<Rightarrow> Workflow \<Rightarrow> Workflow" where
  "handleToggleAction_apply itemId currentCompleted st =
     (let newCompleted = \<not> currentCompleted in
      st\<lparr>actionItems :=
            map (\<lambda>a. if a_id a = itemId then a\<lparr>a_completed := newCompleted\<rparr> else a) (actionItems st),
         stats := (stats st)\<lparr>completedActions :=
            js_add (completedActions (stats st)) (if newCompleted then 1 else - 1)\<rparr>\<rparr>)"

definition handleToggleAction_settle ::
  "string \<Rightarrow> bool \<Rightarrow> ToggleActionResponse option \<Rightarrow> Workflow \<Rightarrow> effect list \<times> Workflow" where
  "handleToggleAction_settle itemId currentCompleted res st =
     (let newCompleted = \<not> currentCompleted in
      case res of
        Some r \<Rightarrow> ([], st)
      | None \<Rightarrow>
          ([ToastError ''Failed to update action item''],
           st\<lparr>actionItems :=
                 map (\<lambda>a. if a_id a = itemId then a\<lparr>a_completed := currentCompleted\<rparr> else a)
                   (actionItems st),
              stats := (stats st)\<lparr>completedActions :=
                 js_add (completedActions (stats st)) (if newCompleted then - 1 else 1)\<rparr>\<rparr>))"

definition handleToggleAction ::
  "User option \<Rightarrow> string \<Rightarrow> bool \<Rightarrow> ToggleActionResponse fetch_outcome \<Rightarrow> Workflow
     \<Rightarrow> (effect list \<times> Workflow) promise" where
  "handleToggleAction user itemId currentCompleted out st =
     (if \<not> has_id user then Inr ([], st)
      else
        (case toggleActionItem out of
           Inl err \<Rightarrow> Inl err
         | Inr res \<Rightarrow>
             Inr (handleToggleAction_settle itemId currentCompleted res
                    (handleToggleAction_apply itemId currentCompleted st))))"

text \<open>\<open>handleCompleteSession\<close>, split at its \<open>await completeSession(sessionId)\<close> in the same way.\<close>

definition handleCompleteSession_apply :: "string \<Rightarrow> Workflow \<Rightarrow> effect list \<times> Workflow" where
  "handleCompleteSession_apply sessionId st =
     ([ToastSuccess ''Session marked as completed!''],
      st\<lparr>sessions :=
            map (\<lambda>s. if s_id s = sessionId
                      then s\<lparr>s_status := ''completed'', s_relative := Some ''Completed''\<rparr> else s)
              (sessions st),
         stats := (stats st)\<lparr>completedSessions := js_add (completedSessions (stats st)) 1\<rparr>\<rparr>)"

definition handleCompleteSession_settle ::
  "string \<Rightarrow> CompleteSessionResponse option \<Rightarrow> User option \<Rightarrow> WorkflowResponse fetch_outcome
     \<Rightarrow> Workflow \<Rightarrow> (effect list \<times> Workflow) promise" where
  "handleCompleteSession_settle sessionId res user wfOut st =
     (case res of
        Some r \<Rightarrow>
          (case loadData user wfOut st of
             Inl err \<Rightarrow> Inl err
           | Inr st' \<Rightarrow> Inr ([], st'))
      | None \<Rightarrow>
          Inr ([ToastError ''Failed to complete session''],
               st\<lparr>sessions :=
                     map (\<lambda>s. if s_id s = sessionId then s\<lparr>s_status := ''upcoming''\<rparr> else s)
                       (sessions st),
                  stats := (stats st)\<lparr>completedSessions := js_sub (completedSessions (stats st)) 1\<rparr>\<rparr>))"

definition handleCompleteSession ::
  "string \<Rightarrow> CompleteSessionResponse fetch_outcome \<Rightarrow> User option \<Rightarrow> WorkflowResponse fetch_outcome
     \<Rightarrow> Workflow \<Rightarrow> (effect list \<times> Workflow) promise" where
  "handleCompleteSession sessionId out user wfOut st =
     (case handleCompleteSession_apply sessionId st of
        (shown, st1) \<Rightarrow>
          (case completeSession out of
             Inl err \<Rightarrow> Inl err
           | Inr res \<Rightarrow>
               (case handleCompleteSession_settle sessionId res user wfOut st1 of
                  Inl err \<Rightarrow> Inl err
                | Inr (later, st2) \<Rightarrow> Inr (shown @ later, st2))))"


section \<open>Mentor dashboard: accept and decline\<close>

record MentorRequest =
  mr_id :: string
  mr_candidateName :: string
  mr_candidateGoal :: string
  mr_experience :: string
  mr_status :: string
  mr_submittedAt :: string

record CalendarInfo =
  ci_url :: string
  ci_date :: string
  ci_time :: string
  ci_candidateName :: string

record SessionDetails =
  sd_date :: string
  sd_time :: string
  sd_mentorName :: string
  sd_candidateName :: string

record AcceptResponse =
  acc_message :: string
  calendarUrl :: "string option"
  sessionDetails :: "SessionDetails option"

record DeclineResponse =
  dec_message :: string

text \<open>
  The state cells that the two handlers write. The dashboard's other cells (statistics,
  upcoming sessions, mentees, name, loaded flag) have no setter call in either handler.
\<close>

record MentorDashboard =
  mentorRequests :: "MentorRequest list"
  calendarInfo :: "CalendarInfo option"

definition postMentorAccept :: "AcceptResponse fetch_outcome \<Rightarrow> AcceptResponse option promise" where
  "postMentorAccept out = apiFetch out"

definition postMentorDecline :: "DeclineResponse fetch_outcome \<Rightarrow> DeclineResponse option promise" where
  "postMentorDecline out = apiFetch out"

text \<open>\<open>res.sessionDetails?.field || ""\<close>.\<close>

definition detail_or_empty :: "(SessionDetails \<Rightarrow> string) \<Rightarrow> SessionDetails option \<Rightarrow> string" where
  "detail_or_empty field sd = (case sd of None \<Rightarrow> [] | Some d \<Rightarrow> field d)"

text \<open>
  \<open>handleAccept\<close> and \<open>handleDecline\<close> start with their \<open>await\<close>: nothing runs before the remote
  call has settled, so the part before it is the identity on the state and has no effect.
\<close>

definition handleAccept_apply :: "string \<Rightarrow> MentorDashboard \<Rightarrow> effect list \<times> MentorDashboard" where
  "handleAccept_apply reqId st = ([], st)"

definition handleAccept_settle ::
  "string \<Rightarrow> AcceptResponse option \<Rightarrow> MentorDashboard \<Rightarrow> effect list \<times> MentorDashboard" where
  "handleAccept_settle reqId res st =
     (case res of
        None \<Rightarrow> ([], st)
      | Some r \<Rightarrow>
          (let st1 = st\<lparr>mentorRequests :=
                 map (\<lambda>q. if mr_id q = reqId then q\<lparr>mr_status := ''accepted''\<rparr> else q)
                   (mentorRequests st)\<rparr>
           in case calendarUrl r of
                None \<Rightarrow> ([], st1)
              | Some url \<Rightarrow>
                  if url = [] then ([], st1)
                  else
                    ([WindowOpen url ''_blank''],
                     st1\<lparr>calendarInfo := Some
                       \<lparr>ci_url = url,
                        ci_date = detail_or_empty sd_date (sessionDetails r),
                        ci_time = detail_or_empty sd_time (sessionDetails r),
                        ci_candidateName = detail_or_empty sd_candidateName (sessionDetails r)\<rparr>\<rparr>)))"

definition handleAccept ::
  "string \<Rightarrow> AcceptResponse fetch_outcome \<Rightarrow> MentorDashboard
     \<Rightarrow> (effect list \<times> MentorDashboard) promise" where
  "handleAccept reqId out st =
     (case handleAccept_apply reqId st of
        (early, st1) \<Rightarrow>
          (case postMentorAccept out of
             Inl err \<Rightarrow> Inl err
           | Inr res \<Rightarrow>
               (case handleAccept_settle reqId res st1 of
                  (later, st2) \<Rightarrow> Inr (early @ later, st2))))"

definition handleDecline_apply :: "string \<Rightarrow> MentorDashboard \<Rightarrow> MentorDashboard" where
  "handleDecline_apply reqId st = st"

definition handleDecline_settle ::
  "string \<Rightarrow> DeclineResponse option \<Rightarrow> MentorDashboard \<Rightarrow> MentorDashboard" where
  "handleDecline_settle reqId res st =
     (case res of
        None \<Rightarrow> st
      | Some r \<Rightarrow>
          st\<lparr>mentorRequests :=
               map (\<lambda>q. if mr_id q = reqId then q\<lparr>mr_status := ''declined''\<rparr> else q)
                 (mentorRequests st)\<rparr>)"

definition handleDecline ::
  "string \<Rightarrow> DeclineResponse fetch_outcome \<Rightarrow> MentorDashboard \<Rightarrow> MentorDashboard promise" where
  "handleDecline reqId out st =
     (case postMentorDecline out of
        Inl err \<Rightarrow> Inl err
      | Inr res \<Rightarrow> Inr (handleDecline_settle reqId res (handleDecline_apply reqId st)))"

text \<open>The status of the requests with a given id, in list order.\<close>

definition status_of :: "string \<Rightarrow> MentorDashboard \<Rightarrow> string list" where
  "status_of reqId st = map mr_status (filter (\<lambda>q. mr_id q = reqId) (mentorRequests st))"


section \<open>Mentor verification screen\<close>

datatype verification = Loading | Unsubmitted | Pending | Verified

record VerificationStatus =
  vs_verified :: bool
  vs_pending :: bool
  vs_linkedinUrl :: string

record VerificationPage =
  vp_linkedinUrl :: string
  vp_status :: verification
  vp_isSubmitting :: bool

definition getMentorVerificationStatus ::
  "VerificationStatus fetch_outcome \<Rightarrow> VerificationStatus option promise" where
  "getMentorVerificationStatus out = apiFetch out"

text \<open>The part of \<open>load\<close> that runs once the status request has delivered \<open>data\<close>.\<close>

definition load_settle :: "VerificationStatus option \<Rightarrow> VerificationPage \<Rightarrow> VerificationPage" where
  "load_settle data page =
     (case data of
        Some d \<Rightarrow>
          if vs_verified d then page\<lparr>vp_status := Verified\<rparr>
          else if vs_pending d then
            (if vs_linkedinUrl d \<noteq> []
             then page\<lparr>vp_status := Pending, vp_linkedinUrl := vs_linkedinUrl d\<rparr>
             else page\<lparr>vp_status := Pending\<rparr>)
          else page\<lparr>vp_status := Unsubmitted\<rparr>
      | None \<Rightarrow> page\<lparr>vp_status := Unsubmitted\<rparr>)"

text \<open>\<open>load\<close> of the mount effect: without a token it redirects and issues no request.\<close>

definition load ::
  "string option \<Rightarrow> VerificationStatus fetch_outcome \<Rightarrow> VerificationPage
     \<Rightarrow> (effect list \<times> VerificationPage) promise" where
  "load token out page =
     (if \<not> truthy token then Inr ([Replace ''/login''], page)
      else
        (case getMentorVerificationStatus out of
           Inl err \<Rightarrow> Inl err
         | Inr data \<Rightarrow> Inr ([], load_settle data page)))"

text \<open>
  The tri-state as the specification words it: \<open>verified\<close> first, then \<open>pending\<close>, else
  unsubmitted.
\<close>

definition tri_state_spec :: "bool \<Rightarrow> bool \<Rightarrow> verification" where
  "tri_state_spec verified pending =
     (if verified then Verified else if pending then Pending else Unsubmitted)"


section \<open>Session store\<close>

text \<open>
  \<open>localStorage\<close>: its items, and whether a write is refused (\<open>setItem\<close> throws when the
  quota is exhausted or storage is disabled).
\<close>

record LocalStorage =
  ls_items :: "string \<rightharpoonup> string"
  ls_refuses :: bool

definition setItem :: "string \<Rightarrow> string \<Rightarrow> LocalStorage \<Rightarrow> LocalStorage promise" where
  "setItem k v ls =
     (if ls_refuses ls then Inl QuotaExceededError else Inr (ls\<lparr>ls_items := (ls_items ls)(k \<mapsto> v)\<rparr>))"

definition removeItem :: "string \<Rightarrow> LocalStorage \<Rightarrow> LocalStorage" where
  "removeItem k ls = ls\<lparr>ls_items := (ls_items ls)(k := None)\<rparr>"

text \<open>A value that \<open>setItem\<close> converts to a string: \<open>undefined\<close> is stored as that word.\<close>

definition to_string :: "string option \<Rightarrow> string" where
  "to_string v = (case v of None \<Rightarrow> ''undefined'' | Some s \<Rightarrow> s)"

record AuthState =
  user :: "User option"
  token :: "string option"
  isLoading :: bool
  localStorage :: LocalStorage

text \<open>The JSON object that the login and signup endpoints answer with.\<close>

record AuthBody =
  ab_detail :: "string option"
  ab_token :: "string option"
  ab_user :: "User option"

record AuthResult =
  success :: bool
  error :: "string option"
  result_user :: "User option"

record SignupData =
  su_email :: string
  su_password :: string
  su_name :: string
  su_role :: string
  su_linkedinUrl :: "string option"

text \<open>
  The \<open>try\<close> block shared by \<open>login\<close> and \<open>signup\<close>, which differ in the request they send and
  in the fallback message. Reading a property of \<open>null\<close> throws a \<open>TypeError\<close>.
\<close>

definition authenticate_try ::
  "string \<Rightarrow> AuthBody fetch_outcome \<Rightarrow> AuthState \<Rightarrow> (AuthResult \<times> AuthState) promise" where
  "authenticate_try fallback out st =
     (case out of
        Rejects e \<Rightarrow> Inl e
      | Resolves res \<Rightarrow>
          (case res_json res of
             Inl e \<Rightarrow> Inl e
           | Inr None \<Rightarrow> Inl TypeError
           | Inr (Some data) \<Rightarrow>
               if \<not> res_ok res then
                 Inr (\<lparr>success = False,
                       error = Some (if truthy (ab_detail data) then to_string (ab_detail data) else fallback),
                       result_user = None\<rparr>, st)
               else
                 (case setItem ''guided_token'' (to_string (ab_token data)) (localStorage st) of
                    Inl e \<Rightarrow> Inl e
                  | Inr ls \<Rightarrow>
                      Inr (\<lparr>success = True, error = None, result_user = ab_user data\<rparr>,
                           st\<lparr>localStorage := ls, token := ab_token data, user := ab_user data\<rparr>))))"

definition login ::
  "string \<Rightarrow> string \<Rightarrow> AuthBody fetch_outcome \<Rightarrow> AuthState \<Rightarrow> AuthResult \<times> AuthState" where
  "login email password out st =
     (case authenticate_try ''Login failed'' out st of
        Inr settled \<Rightarrow> settled
      | Inl err \<Rightarrow>
          (\<lparr>success = False, error = Some ''Cannot connect to server'', result_user = None\<rparr>, st))"

definition signup :: "SignupData \<Rightarrow> AuthBody fetch_outcome \<Rightarrow> AuthState \<Rightarrow> AuthResult \<times> AuthState" where
  "signup signupData out st =
     (case authenticate_try ''Signup failed'' out st of
        Inr settled \<Rightarrow> settled
      | Inl err \<Rightarrow>
          (\<lparr>success = False, error = Some ''Cannot connect to server'', result_user = None\<rparr>, st))"

definition logout :: "AuthState \<Rightarrow> AuthState" where
  "logout st =
     st\<lparr>localStorage :=
          removeItem ''onboardingData'' (removeItem ''candidateId''
            (removeItem ''guided_token'' (localStorage st))),
        token := None, user := None\<rparr>"


section \<open>Access gate\<close>

datatype rendered = Spinner | Nothing | Children

text \<open>The redirect effect of \<open>RouteGuard\<close>, run after each render.\<close>

definition RouteGuard_effect :: "User option \<Rightarrow> bool \<Rightarrow> string list \<Rightarrow> effect list" where
  "RouteGuard_effect usr loading allowedRoles =
     (if loading then []
      else
        (case usr of
           None \<Rightarrow> [Replace ''/login'']
         | Some u \<Rightarrow>
             if u_role u \<notin> set allowedRoles then
               (if u_role u = ''mentor'' then [Replace ''/mentor/dashboard'']
                else if u_role u = ''admin'' then [Replace ''/'']
                else [Replace ''/candidate/workflow''])
             else []))"

text \<open>What \<open>RouteGuard\<close> returns from a render.\<close>

definition RouteGuard :: "User option \<Rightarrow> bool \<Rightarrow> string list \<Rightarrow> rendered" where
  "RouteGuard usr loading allowedRoles =
     (if loading then Spinner
      else
        (case usr of
           None \<Rightarrow> Nothing
         | Some u \<Rightarrow> if u_role u \<notin> set allowedRoles then Nothing else Children))"

text \<open>A role's canonical home, as the specification words it.\<close>

definition home_spec :: "string \<Rightarrow> string" where
  "home_spec role =
     (if role = ''mentor'' then ''/mentor/dashboard''
      else if role = ''admin'' then ''/''
      else ''/candidate/workflow'')"


section \<open>Sign-up form\<close>

record SignupPage =
  sp_name :: string
  sp_email :: string
  sp_password :: string
  sp_role :: string
  sp_linkedinUrl :: string
  sp_showPassword :: bool
  sp_isLoading :: bool

text \<open>
  \<open>handleSubmit\<close> of the sign-up page. The session store's \<open>signup\<close> operation, which the page
  obtains from \<open>useAuth()\<close>, is the parameter \<open>signup_op\<close>: it maps the form data and the store's
  state to the result and the store's new state.
\<close>

definition handleSubmit ::
  "(SignupData \<Rightarrow> AuthState \<Rightarrow> AuthResult \<times> AuthState) \<Rightarrow> SignupPage \<Rightarrow> AuthState
     \<Rightarrow> effect list \<times> SignupPage \<times> AuthState" where
  "handleSubmit signup_op page st =
     (if sp_name page = [] \<or> sp_email page = [] \<or> sp_password page = [] then
        ([ToastError ''Please fill in all required fields''], page, st)
      else if length (sp_password page) < 6 then
        ([ToastError ''Password must be at least 6 characters''], page, st)
      else if sp_role page = ''mentor'' \<and> sp_linkedinUrl page = [] then
        ([ToastError ''LinkedIn URL is required for mentors''], page, st)
      else
        (case signup_op
                \<lparr>su_email = sp_email page, su_password = sp_password page, su_name = sp_name page,
                 su_role = sp_role page, su_linkedinUrl = Some (sp_linkedinUrl page)\<rparr> st of
           (result, st') \<Rightarrow>
             (if success result then
                (if sp_role page = ''mentor'' then
                   [ToastSuccess ''Account created! Your profile is pending verification.'',
                    Push ''/mentor/verification'']
                 else
                   [ToastSuccess ''Account created! Let's set up your profile.'',
                    Push ''/candidate/onboarding''])
              else
                [ToastError (if truthy (error result) then to_string (error result) else ''Signup failed'')],
              page\<lparr>sp_isLoading := False\<rparr>, st')))"

text \<open>Client-side validation fails, in the words of the specification.\<close>

definition validation_fails :: "SignupPage \<Rightarrow> bool" where
  "validation_fails page =
     (sp_name page = [] \<or> sp_email page = [] \<or> sp_password page = []
      \<or> length (sp_password page) < 6
      \<or> (sp_role page = ''mentor'' \<and> sp_linkedinUrl page = []))"



section \<open>Concrete inputs\<close>

definition demo_user :: User where
  "demo_user = \<lparr>u_id = ''u1'', u_email = ''cara@guided.dev'', u_name = ''Cara'',
                 u_role = ''candidate'', u_verified = False\<rparr>"

definition demo_mentor :: User where
  "demo_mentor = \<lparr>u_id = ''u2'', u_email = ''mira@guided.dev'', u_name = ''Mira'',
                   u_role = ''mentor'', u_verified = True\<rparr>"

definition demo_status :: CandidateStatus where
  "demo_status = \<lparr>cs_status = ''active'', hasOnboarded = True, hasMentor = False,
                   hasRoadmap = True, candidateId = Some ''c1''\<rparr>"

definition delivers :: "'a \<Rightarrow> 'a fetch_outcome" where
  "delivers payload = Resolves \<lparr>res_ok = True, res_status = 200, res_json = Inr (Some payload)\<rparr>"

definition unavailable :: "'a fetch_outcome" where
  "unavailable = Resolves \<lparr>res_ok = False, res_status = 503, res_json = Inl SyntaxError\<rparr>"

definition demo_session :: Session where
  "demo_session = \<lparr>s_id = ''s1'', s_title = ''Kickoff'', s_date = ''2026-03-01'', s_time = ''10:00'',
                    s_status = ''upcoming'', s_mentor = ''Mira'', s_notes = None,
                    s_relative = Some ''Tomorrow''\<rparr>"

definition demo_item :: ActionItem where
  "demo_item = \<lparr>a_id = ''a1'', a_title = ''Read chapter 1'', a_completed = False,
                 a_dueDate = ''2026-03-02''\<rparr>"

definition demo_item_done :: ActionItem where
  "demo_item_done = \<lparr>a_id = ''a2'', a_title = ''Set up the repository'', a_completed = True,
                      a_dueDate = ''2026-02-20''\<rparr>"

definition demo_workflow :: Workflow where
  "demo_workflow = \<lparr>sessions = [demo_session], actionItems = [demo_item_done, demo_item],
                     sampleRoadmap = [], mentorName = ''Mira'', nextSession = None,
                     overallProgress = 40,
                     stats = \<lparr>completedSessions = 2, totalSessions = 5, completedActions = 1,
                              totalActions = 2, completedSteps = 0, totalSteps = 4\<rparr>,
                     isLoaded = True\<rparr>"

definition demo_toggled :: ToggleActionResponse where
  "demo_toggled = \<lparr>tar_message = ''Updated'', tar_actionItemId = ''a1'', tar_completed = True,
                    tar_completedCount = 2, tar_totalCount = 2\<rparr>"

definition demo_workflow_big :: Workflow where
  "demo_workflow_big =
     demo_workflow\<lparr>stats := (stats demo_workflow)\<lparr>completedActions := 9007199254740992\<rparr>\<rparr>"

definition demo_request :: MentorRequest where
  "demo_request = \<lparr>mr_id = ''m1'', mr_candidateName = ''Cara'', mr_candidateGoal = ''Data engineer'',
                    mr_experience = ''2 years'', mr_status = ''pending'',
                    mr_submittedAt = ''2026-02-05''\<rparr>"

definition demo_dashboard :: MentorDashboard where
  "demo_dashboard = \<lparr>mentorRequests = [demo_request], calendarInfo = None\<rparr>"

definition demo_accept :: AcceptResponse where
  "demo_accept = \<lparr>acc_message = ''Accepted'', calendarUrl = Some ''https://cal.example/e1'',
                   sessionDetails = None\<rparr>"

definition demo_auth :: AuthState where
  "demo_auth = \<lparr>user = None, token = None, isLoading = False,
                 localStorage = \<lparr>ls_items = Map.empty, ls_refuses = False\<rparr>\<rparr>"

definition demo_body :: AuthBody where
  "demo_body = \<lparr>ab_detail = None, ab_token = Some ''jwt-1'', ab_user = Some demo_user\<rparr>"

definition demo_form :: SignupPage where
  "demo_form = \<lparr>sp_name = ''Cara'', sp_email = ''cara@guided.dev'', sp_password = ''abc'',
                 sp_role = ''candidate'', sp_linkedinUrl = [], sp_showPassword = False,
                 sp_isLoading = False\<rparr>"

definition demo_page :: VerificationPage where
  "demo_page = \<lparr>vp_linkedinUrl = [], vp_status = Loading, vp_isSubmitting = False\<rparr>"


section \<open>The API client never rejects\<close>

lemma apiFetch_fulfils: "\<exists>v. apiFetch out = Inr v"
  by (simp add: apiFetch_def split: sum.split)

lemma apiFetch_failed: "fetch_failed out \<Longrightarrow> apiFetch out = Inr None"
  by (cases out) (simp_all add: fetch_failed_def apiFetch_def apiFetch_try_def)

lemma apiFetch_delivers: "apiFetch out = Inr (Some r) \<Longrightarrow> \<not> fetch_failed out"
  using apiFetch_failed [of out] by auto

lemma apiFetch_delivers_payload: "apiFetch (delivers payload) = Inr (Some payload)"
  by (simp add: delivers_def apiFetch_def apiFetch_try_def)

lemma fetch_failed_unavailable: "fetch_failed unavailable"
  by (simp add: fetch_failed_def unavailable_def)


section \<open>Properties of the resolver\<close>

text \<open>
  Claim C1. For a candidate whose progress flags were fetched, each of the three call sites
  (the landing page's Get Started action, the post-login redirect, the dashboard shortcut)
  navigates exactly once, to the destination that the priority order
  \<open>hasMentor > hasRoadmap > hasOnboarded > none\<close> selects, so all three agree.
\<close>

theorem resolver_call_sites_agree:
  assumes "u_role u = ''candidate''"
    and "getCandidateStatus out = Inr (Some s)"
  shows "handleGetStarted (Some u) out
           = [Push (route_of (resolve_spec (hasMentor s) (hasRoadmap s) (hasOnboarded s)))]
       \<and> smartRedirect (u_role u) (u_verified u) out
           = [Push (route_of (resolve_spec (hasMentor s) (hasRoadmap s) (hasOnboarded s)))]
       \<and> handleDashboard (Some u) out
           = [Push (route_of (resolve_spec (hasMentor s) (hasRoadmap s) (hasOnboarded s)))]"
  using assms
  by (simp add: handleGetStarted_def smartRedirect_def handleDashboard_def chain_def
      resolve_spec_def)

theorem resolver_call_sites_agree_witness:
  "u_role demo_user = ''candidate''
   \<and> getCandidateStatus (delivers demo_status) = Inr (Some demo_status)
   \<and> handleGetStarted (Some demo_user) (delivers demo_status) = [Push ''/candidate/mentors'']
   \<and> smartRedirect ''candidate'' False (delivers demo_status) = [Push ''/candidate/mentors'']
   \<and> handleDashboard (Some demo_user) (delivers demo_status) = [Push ''/candidate/mentors'']"
  using resolver_call_sites_agree [of demo_user "delivers demo_status" demo_status]
  by (simp add: getCandidateStatus_def apiFetch_delivers_payload resolve_spec_def
      demo_user_def demo_status_def)

text \<open>
  Claim C7. When the fetch of the progress flags fails (network error, timeout, or a response
  that is not 2xx), each call site of the resolver sends the candidate to the onboarding
  destination: the handler completes with that single navigation.
\<close>

theorem resolver_fetch_failure_onboarding:
  assumes "u_role u = ''candidate''"
    and "fetch_failed out"
  shows "handleGetStarted (Some u) out = [Push ''/candidate/onboarding'']
       \<and> smartRedirect (u_role u) (u_verified u) out = [Push ''/candidate/onboarding'']
       \<and> handleDashboard (Some u) out = [Push ''/candidate/onboarding'']"
  using assms apiFetch_failed [of out]
  by (simp add: handleGetStarted_def smartRedirect_def handleDashboard_def chain_def
      getCandidateStatus_def)

theorem resolver_fetch_failure_onboarding_witness:
  "u_role demo_user = ''candidate''
   \<and> fetch_failed (Rejects AbortError :: CandidateStatus fetch_outcome)
   \<and> fetch_failed (unavailable :: CandidateStatus fetch_outcome)
   \<and> smartRedirect ''candidate'' False (Rejects AbortError) = [Push ''/candidate/onboarding'']
   \<and> handleGetStarted (Some demo_user) unavailable = [Push ''/candidate/onboarding'']
   \<and> handleDashboard (Some demo_user) unavailable = [Push ''/candidate/onboarding'']"
  using resolver_fetch_failure_onboarding [of demo_user "Rejects AbortError"]
    resolver_fetch_failure_onboarding [of demo_user unavailable]
  by (simp add: fetch_failed_def unavailable_def demo_user_def)

section \<open>Optimistic mutations of the workflow dashboard\<close>

lemma round_to_double_exact: "abs n \<le> 2 ^ 53 \<Longrightarrow> round_to_double n = n"
  by (simp add: round_to_double_def)

lemma js_add_one: "abs c < 2 ^ 53 \<Longrightarrow> js_add c 1 = c + 1"
  unfolding js_add_def by (rule round_to_double_exact) simp

lemma js_add_one_back: "abs c < 2 ^ 53 \<Longrightarrow> js_add (c + 1) (- 1) = c"
  unfolding js_add_def by (simp add: round_to_double_exact)

lemma bit_length_above_safe: "bit_length 9007199254740993 = 54"
  by (simp add: bit_length.simps)

lemma js_add_at_limit: "js_add 9007199254740992 1 = 9007199254740992"
  by (simp add: js_add_def round_to_double_def bit_length_above_safe Let_def)

lemma js_add_from_limit: "js_add 9007199254740992 (- 1) = 9007199254740991"
  by (simp add: js_add_def round_to_double_def)

lemma toggle_apply_item:
  assumes "i < length (actionItems st)" and "a_id (actionItems st ! i) = itemId"
  shows "actionItems (handleToggleAction_apply itemId False st) ! i
           = (actionItems st ! i)\<lparr>a_completed := True\<rparr>"
  using assms by (simp add: handleToggleAction_apply_def)

lemma toggle_apply_others:
  assumes "j < length (actionItems st)" and "a_id (actionItems st ! j) \<noteq> itemId"
  shows "actionItems (handleToggleAction_apply itemId False st) ! j = actionItems st ! j"
  using assms by (simp add: handleToggleAction_apply_def)

lemma toggle_apply_counter:
  assumes "abs (completedActions (stats st)) < 2 ^ 53"
  shows "stats (handleToggleAction_apply itemId False st)
           = (stats st)\<lparr>completedActions := completedActions (stats st) + 1\<rparr>"
  using assms by (simp add: handleToggleAction_apply_def js_add_one)

lemma toggle_handler_composes:
  assumes "has_id usr" and "toggleActionItem out = Inr res"
  shows "handleToggleAction usr itemId cur out st
           = Inr (handleToggleAction_settle itemId cur res (handleToggleAction_apply itemId cur st))"
  using assms by (simp add: handleToggleAction_def)

lemma toggle_revert_state:
  assumes "abs (completedActions (stats st)) < 2 ^ 53"
  shows "\<exists>st2. handleToggleAction_settle itemId False None (handleToggleAction_apply itemId False st)
                 = ([ToastError ''Failed to update action item''], st2)
           \<and> stats st2 = stats st
           \<and> length (actionItems st2) = length (actionItems st)
           \<and> (\<forall>j<length (actionItems st).
                 actionItems st2 ! j =
                   (if a_id (actionItems st ! j) = itemId
                    then (actionItems st ! j)\<lparr>a_completed := False\<rparr>
                    else actionItems st ! j))"
  using assms
  by (simp add: handleToggleAction_settle_def handleToggleAction_apply_def js_add_one
      js_add_one_back o_def)

text \<open>
  Claim C5, as stated, fails at two inputs. With the counter at \<open>2 ^ 53\<close>, the optimistic update
  leaves the counter where it was and the revert after a failed call ends one lower. Without
  a signed-in user, the handler returns before any update, so the item stays incomplete.
\<close>

theorem toggle_counter_counterexample:
  "completedActions (stats demo_workflow_big) = 9007199254740992
   \<and> completedActions (stats (handleToggleAction_apply ''a1'' False demo_workflow_big))
       = 9007199254740992
   \<and> handleToggleAction (Some demo_user) ''a1'' False unavailable demo_workflow_big
       = Inr ([ToastError ''Failed to update action item''],
              demo_workflow_big\<lparr>stats := (stats demo_workflow_big)
                 \<lparr>completedActions := 9007199254740991\<rparr>\<rparr>)
   \<and> handleToggleAction None ''a1'' False (delivers demo_toggled) demo_workflow
       = Inr ([], demo_workflow)
   \<and> map a_completed (actionItems demo_workflow) = [True, False]"
  by (simp add: handleToggleAction_def handleToggleAction_apply_def handleToggleAction_settle_def
      toggleActionItem_def apiFetch_failed fetch_failed_unavailable has_id_def
      js_add_at_limit js_add_from_limit
      demo_workflow_big_def demo_workflow_def demo_item_def demo_item_done_def demo_user_def)

text \<open>
  Claim C5, amended. With a user signed in and the counter an integer below \<open>2 ^ 53\<close> in
  magnitude, toggling an action item whose \<open>completed\<close> flag is false does, in the synchronous
  part of the handler, set that item's flag to true and add exactly 1 to \<open>completedActions\<close>,
  leaving the items with another id and the other counters as they were. The handler ends in
  what the settling part makes of that optimistic state: when the remote call delivers a
  response the optimistic state stands, with no notification; when it delivers \<open>null\<close> the
  item and all counters are as before the toggle, and one error notification is shown.
\<close>

theorem toggle_optimistic_then_settle:
  assumes "i < length (actionItems st)"
    and "a_id (actionItems st ! i) = itemId"
    and "a_completed (actionItems st ! i) = False"
    and "has_id usr"
    and "abs (completedActions (stats st)) < 2 ^ 53"
  shows "(actionItems (handleToggleAction_apply itemId False st) ! i
            = (actionItems st ! i)\<lparr>a_completed := True\<rparr>
          \<and> stats (handleToggleAction_apply itemId False st)
            = (stats st)\<lparr>completedActions := completedActions (stats st) + 1\<rparr>
          \<and> length (actionItems (handleToggleAction_apply itemId False st))
            = length (actionItems st)
          \<and> (\<forall>j<length (actionItems st). a_id (actionItems st ! j) \<noteq> itemId \<longrightarrow>
                actionItems (handleToggleAction_apply itemId False st) ! j = actionItems st ! j))
       \<and> (\<forall>res. toggleActionItem out = Inr res \<longrightarrow>
             handleToggleAction usr itemId False out st
               = Inr (handleToggleAction_settle itemId False res
                        (handleToggleAction_apply itemId False st)))
       \<and> (\<forall>r. toggleActionItem out = Inr (Some r) \<longrightarrow>
             handleToggleAction usr itemId False out st
               = Inr ([], handleToggleAction_apply itemId False st))
       \<and> (toggleActionItem out = Inr None \<longrightarrow>
            (\<exists>st2. handleToggleAction usr itemId False out st
                     = Inr ([ToastError ''Failed to update action item''], st2)
               \<and> actionItems st2 ! i = actionItems st ! i
               \<and> stats st2 = stats st
               \<and> length (actionItems st2) = length (actionItems st)
               \<and> (\<forall>j<length (actionItems st). a_id (actionItems st ! j) \<noteq> itemId \<longrightarrow>
                     actionItems st2 ! j = actionItems st ! j)))"
proof (intro conjI allI impI)
  show "actionItems (handleToggleAction_apply itemId False st) ! i
          = (actionItems st ! i)\<lparr>a_completed := True\<rparr>"
    using assms(1,2) by (rule toggle_apply_item)
next
  show "stats (handleToggleAction_apply itemId False st)
          = (stats st)\<lparr>completedActions := completedActions (stats st) + 1\<rparr>"
    using assms(5) by (rule toggle_apply_counter)
next
  show "length (actionItems (handleToggleAction_apply itemId False st)) = length (actionItems st)"
    by (simp add: handleToggleAction_apply_def)
next
  fix j
  assume "j < length (actionItems st)" and "a_id (actionItems st ! j) \<noteq> itemId"
  then show "actionItems (handleToggleAction_apply itemId False st) ! j = actionItems st ! j"
    by (rule toggle_apply_others)
next
  fix res
  assume "toggleActionItem out = Inr res"
  with assms(4) show "handleToggleAction usr itemId False out st
      = Inr (handleToggleAction_settle itemId False res (handleToggleAction_apply itemId False st))"
    by (rule toggle_handler_composes)
next
  fix r
  assume "toggleActionItem out = Inr (Some r)"
  with assms(4) have "handleToggleAction usr itemId False out st
      = Inr (handleToggleAction_settle itemId False (Some r)
               (handleToggleAction_apply itemId False st))"
    by (rule toggle_handler_composes)
  then show "handleToggleAction usr itemId False out st
      = Inr ([], handleToggleAction_apply itemId False st)"
    by (simp add: handleToggleAction_settle_def)
next
  assume failed: "toggleActionItem out = Inr None"
  from toggle_revert_state [OF assms(5), of itemId]
  obtain st2 where st2:
    "handleToggleAction_settle itemId False None (handleToggleAction_apply itemId False st)
       = ([ToastError ''Failed to update action item''], st2)"
    "stats st2 = stats st"
    "length (actionItems st2) = length (actionItems st)"
    "\<forall>j<length (actionItems st).
       actionItems st2 ! j =
         (if a_id (actionItems st ! j) = itemId
          then (actionItems st ! j)\<lparr>a_completed := False\<rparr>
          else actionItems st ! j)"
    by blast
  have run: "handleToggleAction usr itemId False out st
      = Inr ([ToastError ''Failed to update action item''], st2)"
    using toggle_handler_composes [OF assms(4) failed, of itemId False st] st2(1) by simp
  have item: "actionItems st2 ! i = actionItems st ! i"
    using st2(4) assms(1,2,3) by simp
  have others: "\<forall>j<length (actionItems st). a_id (actionItems st ! j) \<noteq> itemId \<longrightarrow>
      actionItems st2 ! j = actionItems st ! j"
    using st2(4) by simp
  from run item st2(2,3) others
  show "\<exists>st2. handleToggleAction usr itemId False out st
                = Inr ([ToastError ''Failed to update action item''], st2)
          \<and> actionItems st2 ! i = actionItems st ! i
          \<and> stats st2 = stats st
          \<and> length (actionItems st2) = length (actionItems st)
          \<and> (\<forall>j<length (actionItems st). a_id (actionItems st ! j) \<noteq> itemId \<longrightarrow>
                actionItems st2 ! j = actionItems st ! j)"
    by blast
qed

theorem toggle_optimistic_then_settle_witness:
  "1 < length (actionItems demo_workflow)
   \<and> a_id (actionItems demo_workflow ! 1) = ''a1''
   \<and> a_completed (actionItems demo_workflow ! 1) = False
   \<and> has_id (Some demo_user)
   \<and> abs (completedActions (stats demo_workflow)) < 2 ^ 53
   \<and> actionItems (handleToggleAction_apply ''a1'' False demo_workflow)
       = [demo_item_done, demo_item\<lparr>a_completed := True\<rparr>]
   \<and> completedActions (stats (handleToggleAction_apply ''a1'' False demo_workflow)) = 2
   \<and> toggleActionItem (delivers demo_toggled) = Inr (Some demo_toggled)
   \<and> handleToggleAction (Some demo_user) ''a1'' False (delivers demo_toggled) demo_workflow
       = Inr ([], demo_workflow\<lparr>actionItems := [demo_item_done, demo_item\<lparr>a_completed := True\<rparr>],
                 stats := (stats demo_workflow)\<lparr>completedActions := 2\<rparr>\<rparr>)
   \<and> toggleActionItem unavailable = Inr None
   \<and> handleToggleAction (Some demo_user) ''a1'' False unavailable demo_workflow
       = Inr ([ToastError ''Failed to update action item''], demo_workflow)"
  using toggle_optimistic_then_settle
      [of 1 demo_workflow "''a1''" "Some demo_user" "delivers demo_toggled"]
    toggle_optimistic_then_settle [of 1 demo_workflow "''a1''" "Some demo_user" unavailable]
  by (simp add: handleToggleAction_apply_def handleToggleAction_def handleToggleAction_settle_def
      toggleActionItem_def apiFetch_delivers_payload apiFetch_failed fetch_failed_unavailable
      has_id_def js_add_def round_to_double_def
      demo_workflow_def demo_item_def demo_item_done_def demo_user_def)

text \<open>
  Claim C2, at a failing input. An upcoming session labelled \<open>Tomorrow\<close> is marked complete and
  the remote call fails: the revert restores the status and the counter, but the session keeps
  the label \<open>Completed\<close> that the optimistic update gave it.
\<close>

theorem complete_session_revert_keeps_label:
  "handleCompleteSession ''s1'' (Rejects NetworkError) (Some demo_user) (Rejects NetworkError)
     demo_workflow
   = Inr ([ToastSuccess ''Session marked as completed!'', ToastError ''Failed to complete session''],
          demo_workflow\<lparr>sessions := [demo_session\<lparr>s_relative := Some ''Completed''\<rparr>]\<rparr>)
   \<and> s_relative demo_session = Some ''Tomorrow''"
  by (simp add: handleCompleteSession_def handleCompleteSession_apply_def
      handleCompleteSession_settle_def completeSession_def apiFetch_def apiFetch_try_def
      js_add_def js_sub_def round_to_double_def demo_workflow_def demo_session_def)


section \<open>Mentorship requests\<close>

lemma handleAccept_settle_opens:
  assumes "handleAccept_settle reqId res st = (effs, st')"
    and "WindowOpen url target \<in> set effs"
  shows "\<exists>r. res = Some r \<and> calendarUrl r = Some url"
  using assms
  by (auto simp add: handleAccept_settle_def Let_def split: option.splits if_splits)

text \<open>
  Claim C4. Accepting a request does nothing before the remote call has settled. A new
  browsing context is opened only when the call delivered a response, with that response's
  calendar link; when the call fails, the handler ends with no effect and the state unchanged,
  so the request keeps its status.
\<close>

theorem accept_side_effect_after_success:
  "handleAccept_apply reqId st = ([], st)
   \<and> (handleAccept reqId out st = Inr (effs, st') \<and> WindowOpen url target \<in> set effs \<longrightarrow>
        (\<exists>r. postMentorAccept out = Inr (Some r) \<and> calendarUrl r = Some url) \<and> \<not> fetch_failed out)
   \<and> (postMentorAccept out = Inr None \<longrightarrow> handleAccept reqId out st = Inr ([], st))
   \<and> (fetch_failed out \<longrightarrow> handleAccept reqId out st = Inr ([], st))"
proof (intro conjI impI)
  show "handleAccept_apply reqId st = ([], st)"
    by (simp add: handleAccept_apply_def)
next
  assume run: "handleAccept reqId out st = Inr (effs, st') \<and> WindowOpen url target \<in> set effs"
  obtain res where res: "postMentorAccept out = Inr res"
    using apiFetch_fulfils [of out] by (auto simp add: postMentorAccept_def)
  from run res have "handleAccept_settle reqId res st = (effs, st')"
    by (simp add: handleAccept_def handleAccept_apply_def split: prod.splits)
  with run obtain r where r: "res = Some r" "calendarUrl r = Some url"
    using handleAccept_settle_opens by blast
  with res show "\<exists>r. postMentorAccept out = Inr (Some r) \<and> calendarUrl r = Some url"
    by simp
  from res r show "\<not> fetch_failed out"
    using apiFetch_delivers [of out r] by (simp add: postMentorAccept_def)
next
  assume "postMentorAccept out = Inr None"
  then show "handleAccept reqId out st = Inr ([], st)"
    by (simp add: handleAccept_def handleAccept_apply_def handleAccept_settle_def)
next
  assume "fetch_failed out"
  then have "postMentorAccept out = Inr None"
    by (simp add: postMentorAccept_def apiFetch_failed)
  then show "handleAccept reqId out st = Inr ([], st)"
    by (simp add: handleAccept_def handleAccept_apply_def handleAccept_settle_def)
qed

theorem accept_side_effect_after_success_witness:
  "handleAccept ''m1'' (delivers demo_accept) demo_dashboard
     = Inr ([WindowOpen ''https://cal.example/e1'' ''_blank''],
            \<lparr>mentorRequests = [demo_request\<lparr>mr_status := ''accepted''\<rparr>],
             calendarInfo = Some \<lparr>ci_url = ''https://cal.example/e1'', ci_date = [], ci_time = [],
                                  ci_candidateName = []\<rparr>\<rparr>)
   \<and> postMentorAccept (delivers demo_accept) = Inr (Some demo_accept)
   \<and> fetch_failed (delivers demo_accept) = False
   \<and> fetch_failed (unavailable :: AcceptResponse fetch_outcome)
   \<and> postMentorAccept unavailable = Inr None
   \<and> handleAccept ''m1'' unavailable demo_dashboard = Inr ([], demo_dashboard)
   \<and> status_of ''m1'' demo_dashboard = [''pending'']"
  using accept_side_effect_after_success
    [of "''m1''" demo_dashboard "delivers demo_accept"
        "[WindowOpen ''https://cal.example/e1'' ''_blank'']"
        "\<lparr>mentorRequests = [demo_request\<lparr>mr_status := ''accepted''\<rparr>],
          calendarInfo = Some \<lparr>ci_url = ''https://cal.example/e1'', ci_date = [], ci_time = [],
                               ci_candidateName = []\<rparr>\<rparr>"
        "''https://cal.example/e1''" "''_blank''"]
    accept_side_effect_after_success [of "''m1''" demo_dashboard unavailable]
  by (simp add: handleAccept_def handleAccept_apply_def handleAccept_settle_def
      postMentorAccept_def apiFetch_delivers_payload apiFetch_failed fetch_failed_unavailable
      detail_or_empty_def status_of_def demo_dashboard_def demo_request_def demo_accept_def)

text \<open>
  Claim C3, as stated, fails: before the remote decline call has settled, the request is
  still \<open>pending\<close> in the list.
\<close>

theorem decline_not_optimistic_counterexample:
  "status_of ''m1'' demo_dashboard = [''pending'']
   \<and> status_of ''m1'' (handleDecline_apply ''m1'' demo_dashboard) = [''pending'']
   \<and> status_of ''m1'' (handleDecline_apply ''m1'' demo_dashboard) \<noteq> [''declined'']"
  by (simp add: status_of_def handleDecline_apply_def demo_dashboard_def demo_request_def)

text \<open>
  Claim C3, amended. Declining applies no local change before the remote call has settled.
  When the call delivers a response, the requests with the given id get the status
  \<open>declined\<close> and nothing else changes; when it fails, the state is unchanged.
\<close>

theorem decline_after_confirmation:
  "handleDecline_apply reqId st = st
   \<and> (fetch_failed out \<longrightarrow> handleDecline reqId out st = Inr st)
   \<and> (postMentorDecline out = Inr None \<longrightarrow> handleDecline reqId out st = Inr st)
   \<and> (postMentorDecline out = Inr (Some r) \<longrightarrow>
        (\<exists>st'. handleDecline reqId out st = Inr st'
           \<and> length (mentorRequests st') = length (mentorRequests st)
           \<and> (\<forall>j<length (mentorRequests st).
                 mentorRequests st' ! j =
                   (if mr_id (mentorRequests st ! j) = reqId
                    then (mentorRequests st ! j)\<lparr>mr_status := ''declined''\<rparr>
                    else mentorRequests st ! j))
           \<and> calendarInfo st' = calendarInfo st))"
  using apiFetch_failed [of out]
  by (auto simp add: handleDecline_apply_def handleDecline_def handleDecline_settle_def
      postMentorDecline_def)

theorem decline_after_confirmation_witness:
  "fetch_failed (unavailable :: DeclineResponse fetch_outcome)
   \<and> handleDecline ''m1'' unavailable demo_dashboard = Inr demo_dashboard
   \<and> postMentorDecline (delivers \<lparr>dec_message = ''Declined''\<rparr>)
       = Inr (Some \<lparr>dec_message = ''Declined''\<rparr>)
   \<and> handleDecline ''m1'' (delivers \<lparr>dec_message = ''Declined''\<rparr>) demo_dashboard
       = Inr \<lparr>mentorRequests = [demo_request\<lparr>mr_status := ''declined''\<rparr>], calendarInfo = None\<rparr>"
  using decline_after_confirmation [of "''m1''" demo_dashboard unavailable]
    decline_after_confirmation
      [of "''m1''" demo_dashboard "delivers \<lparr>dec_message = ''Declined''\<rparr>"
          "\<lparr>dec_message = ''Declined''\<rparr>"]
  by (simp add: handleDecline_def handleDecline_apply_def handleDecline_settle_def
      postMentorDecline_def apiFetch_delivers_payload apiFetch_failed fetch_failed_unavailable
      demo_dashboard_def demo_request_def)

section \<open>Mentor verification screen\<close>

text \<open>
  Claim C9. With a token present, once the status request has settled the screen has left the
  loading state: it is \<open>verified\<close> when the backend says verified (also when pending is set as
  well), else \<open>pending\<close> when the backend says pending, else \<open>unsubmitted\<close>; and it is
  \<open>unsubmitted\<close> when the request failed.
\<close>

theorem verification_state_after_fetch:
  assumes "truthy tok"
  shows "\<exists>page'. load tok out page = Inr ([], page')
           \<and> vp_status page' \<noteq> Loading
           \<and> (\<forall>d. getMentorVerificationStatus out = Inr (Some d) \<longrightarrow>
                 vp_status page' = tri_state_spec (vs_verified d) (vs_pending d)
               \<and> (vs_verified d \<longrightarrow> vp_status page' = Verified))
           \<and> (getMentorVerificationStatus out = Inr None \<longrightarrow> vp_status page' = Unsubmitted)
           \<and> (fetch_failed out \<longrightarrow> vp_status page' = Unsubmitted)"
  using assms apiFetch_failed [of out] apiFetch_fulfils [of out]
  by (auto simp add: load_def load_settle_def tri_state_spec_def getMentorVerificationStatus_def
      split: option.splits)

theorem verification_state_after_fetch_witness:
  "truthy (Some ''jwt-1'')
   \<and> load (Some ''jwt-1'')
        (delivers \<lparr>vs_verified = True, vs_pending = True, vs_linkedinUrl = ''https://linkedin.com/in/mira''\<rparr>)
        demo_page
       = Inr ([], demo_page\<lparr>vp_status := Verified\<rparr>)
   \<and> fetch_failed (unavailable :: VerificationStatus fetch_outcome)
   \<and> load (Some ''jwt-1'') unavailable demo_page = Inr ([], demo_page\<lparr>vp_status := Unsubmitted\<rparr>)"
  using verification_state_after_fetch
    [of "Some ''jwt-1''"
        "delivers \<lparr>vs_verified = True, vs_pending = True,
                   vs_linkedinUrl = ''https://linkedin.com/in/mira''\<rparr>" demo_page]
    verification_state_after_fetch [of "Some ''jwt-1''" unavailable demo_page]
  by (simp add: truthy_def load_def load_settle_def getMentorVerificationStatus_def
      apiFetch_delivers_payload apiFetch_failed fetch_failed_unavailable)


section \<open>Session store\<close>

lemma authenticate_try_cases:
  assumes "authenticate_try fallback out st = Inr (r, st')"
  shows "(success r = False \<and> st' = st \<and> error r \<noteq> None \<and> result_user r = None)
       \<or> (\<exists>res data ls. out = Resolves res \<and> res_ok res \<and> res_json res = Inr (Some data)
             \<and> setItem ''guided_token'' (to_string (ab_token data)) (localStorage st) = Inr ls
             \<and> r = \<lparr>success = True, error = None, result_user = ab_user data\<rparr>
             \<and> st' = st\<lparr>localStorage := ls, token := ab_token data, user := ab_user data\<rparr>)"
  using assms
  by (auto simp add: authenticate_try_def
      split: fetch_outcome.splits sum.splits option.splits if_splits)

text \<open>
  Claim C8. \<open>login\<close> always returns a result. When the result reports success, the response
  was accepted, the token was written to storage, and the token and the identity of that one
  response were both set; when it reports failure, it carries an error message and the store
  is exactly as before. A rejected request or a response that is not 2xx gives failure; an
  accepted response with a JSON object, with storage writable, gives success.
\<close>

theorem login_all_or_nothing:
  "(\<exists>r st'. login email password out st = (r, st') \<and>
      (if success r
       then \<exists>res data ls. out = Resolves res \<and> res_ok res \<and> res_json res = Inr (Some data)
              \<and> setItem ''guided_token'' (to_string (ab_token data)) (localStorage st) = Inr ls
              \<and> r = \<lparr>success = True, error = None, result_user = ab_user data\<rparr>
              \<and> st' = st\<lparr>localStorage := ls, token := ab_token data, user := ab_user data\<rparr>
       else st' = st \<and> error r \<noteq> None \<and> result_user r = None))
   \<and> (fetch_failed out \<longrightarrow>
         success (fst (login email password out st)) = False
       \<and> snd (login email password out st) = st)
   \<and> (out = Resolves res \<and> res_ok res \<and> res_json res = Inr (Some data)
        \<and> ls_refuses (localStorage st) = False \<longrightarrow>
         login email password out st =
           (\<lparr>success = True, error = None, result_user = ab_user data\<rparr>,
            st\<lparr>localStorage := (localStorage st)\<lparr>ls_items :=
                    (ls_items (localStorage st))(''guided_token'' \<mapsto> to_string (ab_token data))\<rparr>,
               token := ab_token data, user := ab_user data\<rparr>))"
proof (intro conjI impI)
  show "\<exists>r st'. login email password out st = (r, st') \<and>
      (if success r
       then \<exists>res data ls. out = Resolves res \<and> res_ok res \<and> res_json res = Inr (Some data)
              \<and> setItem ''guided_token'' (to_string (ab_token data)) (localStorage st) = Inr ls
              \<and> r = \<lparr>success = True, error = None, result_user = ab_user data\<rparr>
              \<and> st' = st\<lparr>localStorage := ls, token := ab_token data, user := ab_user data\<rparr>
       else st' = st \<and> error r \<noteq> None \<and> result_user r = None)"
  proof (cases "authenticate_try ''Login failed'' out st")
    case (Inl e)
    then show ?thesis by (simp add: login_def)
  next
    case (Inr settled)
    obtain r st' where d: "settled = (r, st')" by (cases settled)
    with Inr have l: "login email password out st = (r, st')" by (simp add: login_def)
    from authenticate_try_cases [of "''Login failed''" out st r st'] Inr d
    show ?thesis unfolding l by auto
  qed
next
  assume "fetch_failed out"
  then show "success (fst (login email password out st)) = False"
    by (cases out) (auto simp add: fetch_failed_def login_def authenticate_try_def
        split: sum.splits option.splits)
next
  assume "fetch_failed out"
  then show "snd (login email password out st) = st"
    by (cases out) (auto simp add: fetch_failed_def login_def authenticate_try_def
        split: sum.splits option.splits)
next
  assume "out = Resolves res \<and> res_ok res \<and> res_json res = Inr (Some data)
        \<and> ls_refuses (localStorage st) = False"
  then show "login email password out st =
           (\<lparr>success = True, error = None, result_user = ab_user data\<rparr>,
            st\<lparr>localStorage := (localStorage st)\<lparr>ls_items :=
                    (ls_items (localStorage st))(''guided_token'' \<mapsto> to_string (ab_token data))\<rparr>,
               token := ab_token data, user := ab_user data\<rparr>)"
    by (simp add: login_def authenticate_try_def setItem_def)
qed

theorem login_all_or_nothing_witness:
  "fetch_failed (Rejects NetworkError :: AuthBody fetch_outcome)
   \<and> login ''cara@guided.dev'' ''secret'' (Rejects NetworkError) demo_auth
       = (\<lparr>success = False, error = Some ''Cannot connect to server'', result_user = None\<rparr>, demo_auth)
   \<and> login ''cara@guided.dev'' ''wrong''
        (Resolves \<lparr>res_ok = False, res_status = 401,
           res_json = Inr (Some \<lparr>ab_detail = Some ''Invalid credentials'', ab_token = None,
                                  ab_user = None\<rparr>)\<rparr>) demo_auth
       = (\<lparr>success = False, error = Some ''Invalid credentials'', result_user = None\<rparr>, demo_auth)
   \<and> ls_refuses (localStorage demo_auth) = False
   \<and> login ''cara@guided.dev'' ''secret'' (delivers demo_body) demo_auth
       = (\<lparr>success = True, error = None, result_user = Some demo_user\<rparr>,
          \<lparr>user = Some demo_user, token = Some ''jwt-1'', isLoading = False,
           localStorage = \<lparr>ls_items = [''guided_token'' \<mapsto> ''jwt-1''], ls_refuses = False\<rparr>\<rparr>)"
  using login_all_or_nothing
      [of "''cara@guided.dev''" "''secret''" "Rejects NetworkError" demo_auth]
    login_all_or_nothing
      [of "''cara@guided.dev''" "''secret''" "delivers demo_body" demo_auth
          "\<lparr>res_ok = True, res_status = 200, res_json = Inr (Some demo_body)\<rparr>" demo_body]
  by (simp add: fetch_failed_def login_def authenticate_try_def setItem_def truthy_def
      to_string_def delivers_def demo_auth_def demo_body_def)


section \<open>Access gate\<close>

text \<open>
  Claim C6. While loading, the gate shows the loading indicator and redirects nowhere, whoever
  the user is. Loaded without a user, it renders nothing and redirects to sign-in. Loaded
  with a user whose role is not allowed, it renders nothing and redirects to that role's home
  (mentor: mentor dashboard; admin: top level; any other role: candidate workflow). The
  children are rendered exactly when loading is over and the user's role is allowed, and
  then there is no redirect.
\<close>

theorem route_guard_three_states:
  "(RouteGuard usr True roles = Spinner \<and> RouteGuard_effect usr True roles = [])
   \<and> (RouteGuard None False roles = Nothing
       \<and> RouteGuard_effect None False roles = [Replace ''/login''])
   \<and> (u_role u \<notin> set roles \<longrightarrow>
         RouteGuard (Some u) False roles = Nothing
       \<and> RouteGuard_effect (Some u) False roles = [Replace (home_spec (u_role u))])
   \<and> (RouteGuard usr loading roles = Children
        \<longleftrightarrow> (\<not> loading \<and> (\<exists>v. usr = Some v \<and> u_role v \<in> set roles)))
   \<and> (RouteGuard usr loading roles = Children \<longrightarrow> RouteGuard_effect usr loading roles = [])"
  by (auto simp add: RouteGuard_def RouteGuard_effect_def home_spec_def split: option.splits)

theorem route_guard_three_states_witness:
  "u_role demo_mentor \<notin> set [''candidate'']
   \<and> RouteGuard (Some demo_mentor) False [''candidate''] = Nothing
   \<and> RouteGuard_effect (Some demo_mentor) False [''candidate''] = [Replace ''/mentor/dashboard'']
   \<and> RouteGuard (Some demo_mentor) True [''candidate''] = Spinner
   \<and> RouteGuard (Some demo_user) False [''candidate''] = Children
   \<and> RouteGuard_effect (Some demo_user) False [''candidate''] = []"
  using route_guard_three_states [of "Some demo_mentor" "[''candidate'']" demo_mentor False]
    route_guard_three_states [of "Some demo_user" "[''candidate'']" demo_mentor False]
  by (simp add: RouteGuard_def RouteGuard_effect_def home_spec_def demo_mentor_def demo_user_def)


section \<open>Sign-up form\<close>

text \<open>
  Claim C10. When client-side validation fails (name, email or password empty; password
  shorter than 6; mentor role without a LinkedIn URL), submitting the form shows one error
  notification and nothing else: whatever the signup operation would do, the form, the
  session store and the navigation are untouched, so the operation was not invoked.
\<close>

theorem signup_validation_blocks_request:
  assumes "validation_fails page"
  shows "\<exists>msg. \<forall>signup_op. handleSubmit signup_op page st = ([ToastError msg], page, st)"
proof -
  consider
      (missing) "sp_name page = [] \<or> sp_email page = [] \<or> sp_password page = []"
    | (short) "\<not> (sp_name page = [] \<or> sp_email page = [] \<or> sp_password page = [])"
        "length (sp_password page) < 6"
    | (mentor) "\<not> (sp_name page = [] \<or> sp_email page = [] \<or> sp_password page = [])"
        "\<not> length (sp_password page) < 6" "sp_role page = ''mentor'' \<and> sp_linkedinUrl page = []"
    using assms unfolding validation_fails_def by blast
  then show ?thesis
  proof cases
    case missing
    then have "\<forall>signup_op. handleSubmit signup_op page st
        = ([ToastError ''Please fill in all required fields''], page, st)"
      unfolding handleSubmit_def by simp
    then show ?thesis ..
  next
    case short
    then have "\<forall>signup_op. handleSubmit signup_op page st
        = ([ToastError ''Password must be at least 6 characters''], page, st)"
      unfolding handleSubmit_def by simp
    then show ?thesis ..
  next
    case mentor
    then have "\<forall>signup_op. handleSubmit signup_op page st
        = ([ToastError ''LinkedIn URL is required for mentors''], page, st)"
      unfolding handleSubmit_def by simp
    then show ?thesis ..
  qed
qed

theorem signup_validation_blocks_request_witness:
  "validation_fails demo_form
   \<and> handleSubmit (\<lambda>signupData. signup signupData (delivers demo_body)) demo_form demo_auth
       = ([ToastError ''Password must be at least 6 characters''], demo_form, demo_auth)
   \<and> handleSubmit (\<lambda>signupData. signup signupData (delivers demo_body))
        (demo_form\<lparr>sp_password := ''abcdef''\<rparr>) demo_auth
       = ([ToastSuccess ''Account created! Let's set up your profile.'', Push ''/candidate/onboarding''],
          demo_form\<lparr>sp_password := ''abcdef''\<rparr>,
          \<lparr>user = Some demo_user, token = Some ''jwt-1'', isLoading = False,
           localStorage = \<lparr>ls_items = [''guided_token'' \<mapsto> ''jwt-1''], ls_refuses = False\<rparr>\<rparr>)"
  using signup_validation_blocks_request [of demo_form demo_auth]
  by (simp add: validation_fails_def handleSubmit_def signup_def authenticate_try_def
      setItem_def to_string_def delivers_def demo_form_def demo_auth_def demo_body_def)

end
